theory Spec2Isabelle
  imports Main "HOL-Library.AList"
begin

section \<open>Python values and the engine's log\<close>

text \<open>
  The lifecycle methods of \<open>K8sResource\<close> (phi/k8s/resource/base.py) pass around values
  typed \<open>Any\<close>: the read primitive returns \<open>None\<close>, \<open>True\<close> or a live object, and the
  update and delete primitives are typed \<open>Any\<close> too. \<open>PyObj n\<close> is an opaque live object
  (for instance a V1Deployment), identified by \<open>n\<close>.
\<close>

datatype pyval = PyNone | PyBool bool | PyObj nat

text \<open>Python truthiness, as the \<open>if self.resource_created:\<close> tests use it.\<close>

fun truthy :: "pyval \<Rightarrow> bool" where
  "truthy PyNone = False"
| "truthy (PyBool b) = b"
| "truthy (PyObj n) = True"

text \<open>
  The overridable methods that the engine calls. \<open>M_read\<close> stands for \<open>_read\<close>,
  \<open>M_create\<close> for \<open>_create\<close>, and so on (an Isabelle name cannot start with an
  underscore).
\<close>

datatype meth =
    M_read | M_create | M_update | M_delete
  | M_post_create | M_post_update | M_post_delete
  | M_save_output_file | M_delete_output_file

text \<open>
  What a run leaves behind, in order: each call of an overridable method, and each line
  given to \<open>print_info\<close>, \<open>logger.error\<close> and \<open>logger.debug\<close>.
\<close>

datatype event =
    Call meth
  | Print_info string
  | Logger_error string
  | Logger_debug string

section \<open>Attribute values and declared fields\<close>

text \<open>
  The values a manifest holds: scalars, lists and nested mappings (an association list
  keeps Python's insertion order).
\<close>

datatype jval =
    JNull | JBool bool | JInt int | JStr string
  | JList "jval list" | JDict "(string \<times> jval) list"

text \<open>
  One declared field of the pydantic model with its current value: the attribute name,
  the alias when the declaration gives one (\<open>api_version\<close> is declared with
  \<open>alias="apiVersion"\<close>), the declared default (\<open>None\<close> for a required field) and
  the value the instance holds.
\<close>

record field =
  field_name :: string
  field_alias :: "string option"
  field_default :: "jval option"
  field_value :: jval

section \<open>The resource\<close>

text \<open>
  The attributes of a \<open>K8sResource\<close> that the lifecycle reads or writes. The skip flags,
  \<open>use_cache\<close>, \<open>save_output\<close>, \<open>active_resource\<close>, the three result flags and \<open>name\<close>
  are inherited from \<open>ResourceBase\<close>; pydantic does not validate an assignment, so a
  result flag holds whatever the primitive returned. \<open>metadata_name\<close> is
  \<open>self.metadata.name\<close> and \<open>class_name\<close> is \<open>self.__class__.__name__\<close>.
  \<open>'c\<close> is the type of the API client. \<open>model_fields\<close> is the instance as pydantic
  sees it when it dumps the model: every declared field with its current value.
\<close>

record 'c K8sResource =
  name :: "string option"
  metadata_name :: "string option"
  class_name :: string
  skip_read :: bool
  skip_create :: bool
  skip_update :: bool
  skip_delete :: bool
  use_cache :: bool
  save_output :: bool
  active_resource :: pyval
  resource_created :: pyval
  resource_updated :: pyval
  resource_deleted :: pyval
  k8s_client :: "'c option"
  model_fields :: "field list"
  fields_for_k8s_manifest_base :: "string list"
  fields_for_k8s_manifest :: "string list"

text \<open>
  A run threads the resource object, the remote system \<open>'w\<close> (the cluster, and the
  file system that holds saved manifests) and the log.
\<close>

record ('c, 'w) state =
  self :: "'c K8sResource"
  cluster :: 'w
  trace :: "event list"

text \<open>
  A kind-specific method receives the client, may change the resource object and the
  remote system, and returns a value. It has no access to the log. base.py raises
  nothing and catches nothing, so an override that raises ends the operation without a
  result; the methods below describe the runs in which every override returns.
\<close>

type_synonym ('c, 'w) prim = "'c \<Rightarrow> 'c K8sResource \<Rightarrow> 'w \<Rightarrow> pyval \<times> 'c K8sResource \<times> 'w"

text \<open>
  A specialization: the overrides a subclass supplies (\<open>None\<close> where it keeps the
  method of the base class), and the parts of \<open>ResourceBase\<close> and of the client module
  that base.py calls but does not define: \<open>save_output_file\<close>, \<open>delete_output_file\<close>,
  \<open>get_resource_type\<close> and the constructor \<open>K8sApiClient()\<close>.
\<close>

record ('c, 'w) specialization =
  read_impl :: "('c, 'w) prim option"
  create_impl :: "('c, 'w) prim option"
  update_impl :: "('c, 'w) prim option"
  delete_impl :: "('c, 'w) prim option"
  post_create_impl :: "('c, 'w) prim option"
  post_update_impl :: "('c, 'w) prim option"
  post_delete_impl :: "('c, 'w) prim option"
  save_output_file :: "'c K8sResource \<Rightarrow> 'w \<Rightarrow> 'c K8sResource \<times> 'w"
  delete_output_file :: "'c K8sResource \<Rightarrow> 'w \<Rightarrow> 'c K8sResource \<times> 'w"
  get_resource_type :: "'c K8sResource \<Rightarrow> string"
  new_K8sApiClient :: 'c

section \<open>Helpers\<close>

definition log_event :: "event \<Rightarrow> ('c, 'w) state \<Rightarrow> ('c, 'w) state" where
  "log_event e s = s\<lparr>trace := trace s @ [e]\<rparr>"

text \<open>How often method \<open>m\<close> has been called so far.\<close>

definition calls :: "meth \<Rightarrow> ('c, 'w) state \<Rightarrow> nat" where
  "calls m s = count_list (trace s) (Call m)"

text \<open>Running an override on the current object and remote system.\<close>

definition run :: "('c, 'w) prim \<Rightarrow> 'c \<Rightarrow> ('c, 'w) state \<Rightarrow> pyval \<times> ('c, 'w) state" where
  "run p c s =
     (case p c (self s) (cluster s) of
        (v, r, w) \<Rightarrow> (v, s\<lparr>self := r, cluster := w\<rparr>))"

text \<open>Truthiness of an optional string: \<open>None\<close> and the empty string are falsy.\<close>

fun str_truthy :: "string option \<Rightarrow> bool" where
  "str_truthy None = False"
| "str_truthy (Some n) = (n \<noteq> [])"

text \<open>\<open>self.name or self.metadata.name or self.__class__.__name__\<close>\<close>

definition get_resource_name :: "'c K8sResource \<Rightarrow> string" where
  "get_resource_name r =
     (if str_truthy (name r) then the (name r)
      else if str_truthy (metadata_name r) then the (metadata_name r)
      else class_name r)"

definition get_k8s_client :: "('c, 'w) specialization \<Rightarrow> ('c, 'w) state \<Rightarrow> 'c \<times> ('c, 'w) state" where
  "get_k8s_client sp s =
     (case k8s_client (self s) of
        Some c \<Rightarrow> (c, s)
      | None \<Rightarrow>
          (let c = new_K8sApiClient sp
           in (c, s\<lparr>self := (self s)\<lparr>k8s_client := Some c\<rparr>\<rparr>)))"

text \<open>\<open>k8s_client or self.get_k8s_client()\<close>: the argument may be \<open>None\<close>.\<close>

definition client_or_own :: "('c, 'w) specialization \<Rightarrow> 'c option \<Rightarrow> ('c, 'w) state \<Rightarrow> 'c \<times> ('c, 'w) state" where
  "client_or_own sp arg s =
     (case arg of Some c \<Rightarrow> (c, s) | None \<Rightarrow> get_k8s_client sp s)"

section \<open>The kind-specific primitives and their defaults\<close>

text \<open>
  Each default of the base class logs that the method is not defined and returns
  \<open>True\<close>. \<open>priv_read\<close> is the call \<open>self._read(client)\<close> with method dispatch:
  the override when there is one, else the default.
\<close>

definition priv_read :: "('c, 'w) specialization \<Rightarrow> 'c \<Rightarrow> ('c, 'w) state \<Rightarrow> pyval \<times> ('c, 'w) state" where
  "priv_read sp c s =
     (let s1 = log_event (Call M_read) s
      in case read_impl sp of
           Some p \<Rightarrow> run p c s1
         | None \<Rightarrow>
             (PyBool True,
              log_event (Logger_error (''@_read method not defined for '' @ get_resource_name (self s1))) s1))"

definition priv_create :: "('c, 'w) specialization \<Rightarrow> 'c \<Rightarrow> ('c, 'w) state \<Rightarrow> pyval \<times> ('c, 'w) state" where
  "priv_create sp c s =
     (let s1 = log_event (Call M_create) s
      in case create_impl sp of
           Some p \<Rightarrow> run p c s1
         | None \<Rightarrow>
             (PyBool True,
              log_event (Logger_error (''@_create method not defined for '' @ get_resource_name (self s1))) s1))"

definition priv_update :: "('c, 'w) specialization \<Rightarrow> 'c \<Rightarrow> ('c, 'w) state \<Rightarrow> pyval \<times> ('c, 'w) state" where
  "priv_update sp c s =
     (let s1 = log_event (Call M_update) s
      in case update_impl sp of
           Some p \<Rightarrow> run p c s1
         | None \<Rightarrow>
             (PyBool True,
              log_event (Logger_error (''@_update method not defined for '' @ get_resource_name (self s1))) s1))"

definition priv_delete :: "('c, 'w) specialization \<Rightarrow> 'c \<Rightarrow> ('c, 'w) state \<Rightarrow> pyval \<times> ('c, 'w) state" where
  "priv_delete sp c s =
     (let s1 = log_event (Call M_delete) s
      in case delete_impl sp of
           Some p \<Rightarrow> run p c s1
         | None \<Rightarrow>
             (PyBool True,
              log_event (Logger_error (''@_delete method not defined for '' @ get_resource_name (self s1))) s1))"

text \<open>The post-action hooks return \<open>True\<close> unless a subclass overrides them.\<close>

definition post_create :: "('c, 'w) specialization \<Rightarrow> 'c \<Rightarrow> ('c, 'w) state \<Rightarrow> pyval \<times> ('c, 'w) state" where
  "post_create sp c s =
     (let s1 = log_event (Call M_post_create) s
      in case post_create_impl sp of Some p \<Rightarrow> run p c s1 | None \<Rightarrow> (PyBool True, s1))"

definition post_update :: "('c, 'w) specialization \<Rightarrow> 'c \<Rightarrow> ('c, 'w) state \<Rightarrow> pyval \<times> ('c, 'w) state" where
  "post_update sp c s =
     (let s1 = log_event (Call M_post_update) s
      in case post_update_impl sp of Some p \<Rightarrow> run p c s1 | None \<Rightarrow> (PyBool True, s1))"

definition post_delete :: "('c, 'w) specialization \<Rightarrow> 'c \<Rightarrow> ('c, 'w) state \<Rightarrow> pyval \<times> ('c, 'w) state" where
  "post_delete sp c s =
     (let s1 = log_event (Call M_post_delete) s
      in case post_delete_impl sp of Some p \<Rightarrow> run p c s1 | None \<Rightarrow> (PyBool True, s1))"

text \<open>The two file operations of \<open>ResourceBase\<close>; the engine drops what they return.\<close>

definition do_save_output_file :: "('c, 'w) specialization \<Rightarrow> ('c, 'w) state \<Rightarrow> ('c, 'w) state" where
  "do_save_output_file sp s =
     (let s1 = log_event (Call M_save_output_file) s
      in case save_output_file sp (self s1) (cluster s1) of
           (r, w) \<Rightarrow> s1\<lparr>self := r, cluster := w\<rparr>)"

definition do_delete_output_file :: "('c, 'w) specialization \<Rightarrow> ('c, 'w) state \<Rightarrow> ('c, 'w) state" where
  "do_delete_output_file sp s =
     (let s1 = log_event (Call M_delete_output_file) s
      in case delete_output_file sp (self s1) (cluster s1) of
           (r, w) \<Rightarrow> s1\<lparr>self := r, cluster := w\<rparr>)"

text \<open>\<open>f"{self.get_resource_type()}: {self.get_resource_name()}"\<close>, the head of most lines.\<close>

definition type_and_name :: "('c, 'w) specialization \<Rightarrow> 'c K8sResource \<Rightarrow> string" where
  "type_and_name sp r = get_resource_type sp r @ '': '' @ get_resource_name r"

section \<open>read and is_active\<close>

definition read :: "('c, 'w) specialization \<Rightarrow> 'c option \<Rightarrow> ('c, 'w) state \<Rightarrow> pyval \<times> ('c, 'w) state" where
  "read sp arg s =
     (if use_cache (self s) \<and> active_resource (self s) \<noteq> PyNone then (active_resource (self s), s)
      else if skip_read (self s) then
        (PyBool True, log_event (Print_info (''Skipping read: '' @ get_resource_name (self s))) s)
      else
        (case client_or_own sp arg s of (client, s1) \<Rightarrow> priv_read sp client s1))"

definition is_active :: "('c, 'w) specialization \<Rightarrow> 'c \<Rightarrow> ('c, 'w) state \<Rightarrow> bool \<times> ('c, 'w) state" where
  "is_active sp c s =
     (case priv_read sp c s of
        (v, s1) \<Rightarrow>
          (let s2 = s1\<lparr>self := (self s1)\<lparr>active_resource := v\<rparr>\<rparr>
           in (active_resource (self s2) \<noteq> PyNone, s2)))"

section \<open>create\<close>

text \<open>
  The condition of step 2, \<open>self.use_cache and self.is_active(client)\<close>, with the client
  resolved on the line before it. Python's \<open>and\<close> does not evaluate its right operand
  when the left one is false. The result is the condition, the client and the state
  after evaluating it.
\<close>

definition create_cond :: "('c, 'w) specialization \<Rightarrow> 'c option \<Rightarrow> ('c, 'w) state \<Rightarrow> bool \<times> 'c \<times> ('c, 'w) state" where
  "create_cond sp arg s =
     (case client_or_own sp arg s of
        (client, s1) \<Rightarrow>
          (if use_cache (self s1) then
             (case is_active sp client s1 of (b, s2) \<Rightarrow> (b, client, s2))
           else (False, client, s1)))"

definition create :: "('c, 'w) specialization \<Rightarrow> 'c option \<Rightarrow> ('c, 'w) state \<Rightarrow> pyval \<times> ('c, 'w) state" where
  "create sp arg s =
     (if skip_create (self s) then
        (PyBool True, log_event (Print_info (''Skipping create: '' @ get_resource_name (self s))) s)
      else
        (case create_cond sp arg s of
           (True, client, s2) \<Rightarrow>
             (let s3 = s2\<lparr>self := (self s2)\<lparr>resource_created := PyBool True\<rparr>\<rparr>
              in (PyBool True, log_event (Print_info (type_and_name sp (self s3) @ '' already exists'')) s3))
         | (False, client, s2) \<Rightarrow>
             (case priv_create sp client s2 of
                (v, s3) \<Rightarrow>
                  (let s4 = s3\<lparr>self := (self s3)\<lparr>resource_created := v\<rparr>\<rparr>;
                       s5 = (if truthy (resource_created (self s4))
                             then log_event (Print_info (type_and_name sp (self s4) @ '' created'')) s4
                             else s4)
                   in if truthy (resource_created (self s5)) then
                        (let s6 = (if save_output (self s5) then do_save_output_file sp s5 else s5);
                             s7 = log_event (Logger_debug (''Running post-create for '' @ type_and_name sp (self s6))) s6
                         in post_create sp client s7)
                      else
                        (let s6 = log_event (Logger_error (''Failed to create '' @ type_and_name sp (self s5))) s5
                         in (resource_created (self s6), s6))))))"

section \<open>update and delete\<close>

definition update :: "('c, 'w) specialization \<Rightarrow> 'c option \<Rightarrow> ('c, 'w) state \<Rightarrow> pyval \<times> ('c, 'w) state" where
  "update sp arg s =
     (if skip_update (self s) then
        (PyBool True, log_event (Print_info (''Skipping update: '' @ get_resource_name (self s))) s)
      else
        (case client_or_own sp arg s of
           (client, s1) \<Rightarrow>
             (case is_active sp client s1 of
                (False, s2) \<Rightarrow>
                  (PyBool True, log_event (Print_info (type_and_name sp (self s2) @ '' does not exist'')) s2)
              | (True, s2) \<Rightarrow>
                  (case priv_update sp client s2 of
                     (v, s3) \<Rightarrow>
                       (let s4 = s3\<lparr>self := (self s3)\<lparr>resource_updated := v\<rparr>\<rparr>
                        in if truthy (resource_updated (self s4)) then
                             (let s5 = log_event (Print_info (type_and_name sp (self s4) @ '' updated'')) s4;
                                  s6 = (if save_output (self s5) then do_save_output_file sp s5 else s5);
                                  s7 = log_event (Logger_debug (''Running post-update for '' @ type_and_name sp (self s6))) s6
                              in post_update sp client s7)
                           else
                             (let s5 = log_event (Logger_error (''Failed to update '' @ type_and_name sp (self s4))) s4
                              in (resource_updated (self s5), s5)))))))"

definition delete :: "('c, 'w) specialization \<Rightarrow> 'c option \<Rightarrow> ('c, 'w) state \<Rightarrow> pyval \<times> ('c, 'w) state" where
  "delete sp arg s =
     (if skip_delete (self s) then
        (PyBool True, log_event (Print_info (''Skipping delete: '' @ get_resource_name (self s))) s)
      else
        (case client_or_own sp arg s of
           (client, s1) \<Rightarrow>
             (case is_active sp client s1 of
                (False, s2) \<Rightarrow>
                  (PyBool True, log_event (Print_info (type_and_name sp (self s2) @ '' does not exist'')) s2)
              | (True, s2) \<Rightarrow>
                  (case priv_delete sp client s2 of
                     (v, s3) \<Rightarrow>
                       (let s4 = s3\<lparr>self := (self s3)\<lparr>resource_deleted := v\<rparr>\<rparr>
                        in if truthy (resource_deleted (self s4)) then
                             (let s5 = log_event (Print_info (type_and_name sp (self s4) @ '' deleted'')) s4;
                                  s6 = (if save_output (self s5) then do_delete_output_file sp s5 else s5);
                                  s7 = log_event (Logger_debug (''Running post-delete for '' @ type_and_name sp (self s6) @ ''.'')) s6
                              in post_delete sp client s7)
                           else
                             (let s5 = log_event (Logger_error (''Failed to delete '' @ type_and_name sp (self s4))) s4
                              in (resource_deleted (self s5), s5)))))))"

section \<open>The manifest\<close>

text \<open>The key a field is dumped under with \<open>by_alias=True\<close>: its alias when it has one.\<close>

definition wire_name :: "field \<Rightarrow> string" where
  "wire_name f = (case field_alias f of Some a \<Rightarrow> a | None \<Rightarrow> field_name f)"

text \<open>Whether a field holds its declared default; a required field never does.\<close>

definition holds_default :: "field \<Rightarrow> bool" where
  "holds_default f = (field_default f = Some (field_value f))"

text \<open>
  Modelled from the spec: \<open>self.model_dump(exclude_defaults=True, by_alias=True)\<close> is
  pydantic's and not part of base.py. In the spec's words it "dumps the resource's
  current attribute set excluding attributes at default/empty value, using wire-facing
  names (alias mapping, e.g. internal api_version -> external apiVersion)": one entry
  per field that does not hold its default, in declaration order, under the field's wire
  name. The result is a Python dict, so a key written twice keeps its first place and its
  last value, which is what \<open>AList.update\<close> does.
\<close>

definition model_dump :: "field list \<Rightarrow> (string \<times> jval) list" where
  "model_dump fs =
     fold (\<lambda>f d. if holds_default f then d else AList.update (wire_name f) (field_value f) d) fs []"

text \<open>
  \<open>get_k8s_manifest_dict\<close>: the loop over
  \<open>chain(self.fields_for_k8s_manifest_base, self.fields_for_k8s_manifest)\<close> copies each
  listed name that is a key of \<open>all_attributes\<close> into \<open>k8s_manifest\<close>.
\<close>

definition get_k8s_manifest_dict :: "'c K8sResource \<Rightarrow> (string \<times> jval) list" where
  "get_k8s_manifest_dict r =
     (let all_attributes = model_dump (model_fields r)
      in fold (\<lambda>attr_name k8s_manifest.
                 case map_of all_attributes attr_name of
                   Some v \<Rightarrow> AList.update attr_name v k8s_manifest
                 | None \<Rightarrow> k8s_manifest)
           (fields_for_k8s_manifest_base r @ fields_for_k8s_manifest r) [])"

text \<open>
  A resource as the class declares it: \<open>fields_for_k8s_manifest_base\<close> holds its
  declared value, no two fields are dumped under one key, and no field is dumped under
  the attribute name \<open>api_version\<close> (the field of that name carries the alias
  \<open>apiVersion\<close>).
\<close>

definition k8s_declared :: "'c K8sResource \<Rightarrow> bool" where
  "k8s_declared r \<longleftrightarrow>
     fields_for_k8s_manifest_base r = [''api_version'', ''apiVersion'', ''kind'', ''metadata''] \<and>
     distinct (map wire_name (model_fields r)) \<and>
     ''api_version'' \<notin> set (map wire_name (model_fields r))"

section \<open>What the probe finds\<close>

text \<open>
  The value the read primitive returns when a lifecycle operation probes from state
  \<open>s\<close>: the client is resolved first, then \<open>_read\<close> is called. \<open>PyNone\<close> means that
  the resource is absent.
\<close>

definition probe_result :: "('c, 'w) specialization \<Rightarrow> 'c option \<Rightarrow> ('c, 'w) state \<Rightarrow> pyval" where
  "probe_result sp arg s = (case client_or_own sp arg s of (client, s1) \<Rightarrow> fst (priv_read sp client s1))"

text \<open>The events that a run from \<open>s\<close> to \<open>s'\<close> added to the log.\<close>

definition new_events :: "('c, 'w) state \<Rightarrow> ('c, 'w) state \<Rightarrow> event list" where
  "new_events s s' = drop (length (trace s)) (trace s')"

text \<open>
  Whether, in a list of events, no call of \<open>_create\<close> comes before the first call of
  \<open>_read\<close>.
\<close>

fun probe_precedes_create :: "event list \<Rightarrow> bool" where
  "probe_precedes_create [] = True"
| "probe_precedes_create (Call M_read # es) = True"
| "probe_precedes_create (Call M_create # es) = False"
| "probe_precedes_create (e # es) = probe_precedes_create es"

section \<open>Example resources\<close>

text \<open>
  A small cluster to run the engine on: the remote system is the list of the live
  objects' identifiers, the client is a number. The resource is a deployment named
  \<open>web\<close> with three replicas (the default is one) that is not paused (the default).
\<close>

definition example_fields :: "field list" where
  "example_fields =
     [\<lparr>field_name = ''api_version'', field_alias = Some ''apiVersion'',
       field_default = None, field_value = JStr ''apps/v1''\<rparr>,
      \<lparr>field_name = ''kind'', field_alias = None,
       field_default = None, field_value = JStr ''Deployment''\<rparr>,
      \<lparr>field_name = ''metadata'', field_alias = None,
       field_default = None, field_value = JDict [(''name'', JStr ''web'')]\<rparr>,
      \<lparr>field_name = ''async_req'', field_alias = None,
       field_default = Some (JBool False), field_value = JBool False\<rparr>,
      \<lparr>field_name = ''pretty'', field_alias = None,
       field_default = Some (JBool True), field_value = JBool False\<rparr>,
      \<lparr>field_name = ''replicas'', field_alias = None,
       field_default = Some (JInt 1), field_value = JInt 3\<rparr>,
      \<lparr>field_name = ''paused'', field_alias = None,
       field_default = Some (JBool False), field_value = JBool False\<rparr>]"

definition example_resource :: "nat K8sResource" where
  "example_resource =
     \<lparr>name = None, metadata_name = Some ''web'', class_name = ''Deployment'',
      skip_read = False, skip_create = False, skip_update = False, skip_delete = False,
      use_cache = True, save_output = False,
      active_resource = PyNone,
      resource_created = PyBool False, resource_updated = PyBool False,
      resource_deleted = PyBool False,
      k8s_client = None,
      model_fields = example_fields,
      fields_for_k8s_manifest_base = [''api_version'', ''apiVersion'', ''kind'', ''metadata''],
      fields_for_k8s_manifest = [''replicas'', ''paused'']\<rparr>"

definition example_state :: "nat list \<Rightarrow> (nat, nat list) state" where
  "example_state w = \<lparr>self = example_resource, cluster = w, trace = []\<rparr>"

text \<open>The same resource with \<open>use_cache=False\<close>.\<close>

definition uncached_state :: "nat list \<Rightarrow> (nat, nat list) state" where
  "uncached_state w = \<lparr>self = example_resource\<lparr>use_cache := False\<rparr>, cluster = w, trace = []\<rparr>"

text \<open>The same resource with \<open>active_resource\<close> populated by an earlier read.\<close>

definition cached_state :: "nat list \<Rightarrow> (nat, nat list) state" where
  "cached_state w = \<lparr>self = example_resource\<lparr>active_resource := PyObj 7\<rparr>, cluster = w, trace = []\<rparr>"

text \<open>The same resource with the three skip flags set.\<close>

definition skipping_state :: "nat list \<Rightarrow> (nat, nat list) state" where
  "skipping_state w =
     \<lparr>self = example_resource\<lparr>skip_create := True, skip_update := True, skip_delete := True\<rparr>,
      cluster = w, trace = []\<rparr>"

text \<open>A subclass that overrides nothing.\<close>

definition base_specialization :: "(nat, nat list) specialization" where
  "base_specialization =
     \<lparr>read_impl = None, create_impl = None, update_impl = None, delete_impl = None,
      post_create_impl = None, post_update_impl = None, post_delete_impl = None,
      save_output_file = (\<lambda>r w. (r, w)), delete_output_file = (\<lambda>r w. (r, w)),
      get_resource_type = class_name, new_K8sApiClient = 0\<rparr>"

definition example_read :: "(nat, nat list) prim" where
  "example_read c r w = (case w of [] \<Rightarrow> (PyNone, r, w) | n # ns \<Rightarrow> (PyObj n, r, w))"

definition example_create :: "(nat, nat list) prim" where
  "example_create c r w = (PyBool True, r\<lparr>active_resource := PyObj 7\<rparr>, 7 # w)"

definition example_update :: "(nat, nat list) prim" where
  "example_update c r w = (PyBool True, r, w)"

definition example_delete :: "(nat, nat list) prim" where
  "example_delete c r w = (PyBool True, r\<lparr>active_resource := PyNone\<rparr>, tl w)"

definition example_rejected :: "(nat, nat list) prim" where
  "example_rejected c r w = (PyBool False, r, w)"

text \<open>A subclass with all four primitives.\<close>

definition example_specialization :: "(nat, nat list) specialization" where
  "example_specialization =
     base_specialization\<lparr>read_impl := Some example_read, create_impl := Some example_create,
       update_impl := Some example_update, delete_impl := Some example_delete\<rparr>"

text \<open>The same subclass on a cluster that rejects every creation.\<close>

definition rejecting_specialization :: "(nat, nat list) specialization" where
  "rejecting_specialization = example_specialization\<lparr>create_impl := Some example_rejected\<rparr>"

text \<open>A subclass that supplies the read primitive only.\<close>

definition read_only_specialization :: "(nat, nat list) specialization" where
  "read_only_specialization = base_specialization\<lparr>read_impl := Some example_read\<rparr>"

section \<open>How each step changes the log\<close>

lemmas engine_defs = log_event_def calls_def run_def get_k8s_client_def client_or_own_def
  priv_read_def priv_create_def priv_update_def priv_delete_def
  post_create_def post_update_def post_delete_def
  do_save_output_file_def do_delete_output_file_def type_and_name_def get_resource_name_def
  read_def is_active_def create_cond_def create_def update_def delete_def probe_result_def
  new_events_def

lemmas example_defs = example_resource_def example_state_def uncached_state_def cached_state_def
  skipping_state_def base_specialization_def
  example_read_def example_create_def example_update_def example_delete_def example_rejected_def
  example_specialization_def rejecting_specialization_def read_only_specialization_def

lemma log_event_simps [simp]:
  "trace (log_event e s) = trace s @ [e]"
  "self (log_event e s) = self s"
  "cluster (log_event e s) = cluster s"
  by (simp_all add: log_event_def)

lemma run_simps [simp]:
  "trace (snd (run p c s)) = trace s"
  "fst (run p c s) = fst (p c (self s) (cluster s))"
  by (simp_all add: run_def split: prod.split)

lemma client_or_own_simps [simp]:
  "trace (snd (client_or_own sp arg s)) = trace s"
  "cluster (snd (client_or_own sp arg s)) = cluster s"
  "use_cache (self (snd (client_or_own sp arg s))) = use_cache (self s)"
  "save_output (self (snd (client_or_own sp arg s))) = save_output (self s)"
  "active_resource (self (snd (client_or_own sp arg s))) = active_resource (self s)"
  by (simp_all add: client_or_own_def get_k8s_client_def Let_def split: option.split)

lemma priv_read_trace:
  "trace (snd (priv_read sp c s)) =
     trace s @ Call M_read #
       (case read_impl sp of Some p \<Rightarrow> []
        | None \<Rightarrow> [Logger_error (''@_read method not defined for '' @ get_resource_name (self s))])"
  by (simp add: priv_read_def Let_def split: option.split)

lemma priv_create_trace:
  "trace (snd (priv_create sp c s)) =
     trace s @ Call M_create #
       (case create_impl sp of Some p \<Rightarrow> []
        | None \<Rightarrow> [Logger_error (''@_create method not defined for '' @ get_resource_name (self s))])"
  by (simp add: priv_create_def Let_def split: option.split)

lemma priv_update_trace:
  "trace (snd (priv_update sp c s)) =
     trace s @ Call M_update #
       (case update_impl sp of Some p \<Rightarrow> []
        | None \<Rightarrow> [Logger_error (''@_update method not defined for '' @ get_resource_name (self s))])"
  by (simp add: priv_update_def Let_def split: option.split)

lemma priv_delete_trace:
  "trace (snd (priv_delete sp c s)) =
     trace s @ Call M_delete #
       (case delete_impl sp of Some p \<Rightarrow> []
        | None \<Rightarrow> [Logger_error (''@_delete method not defined for '' @ get_resource_name (self s))])"
  by (simp add: priv_delete_def Let_def split: option.split)

lemma default_results:
  "read_impl sp = None \<Longrightarrow> fst (priv_read sp c s) = PyBool True"
  "create_impl sp = None \<Longrightarrow> fst (priv_create sp c s) = PyBool True"
  "update_impl sp = None \<Longrightarrow> fst (priv_update sp c s) = PyBool True"
  "delete_impl sp = None \<Longrightarrow> fst (priv_delete sp c s) = PyBool True"
  "post_create_impl sp = None \<Longrightarrow> fst (post_create sp c s) = PyBool True"
  "post_update_impl sp = None \<Longrightarrow> fst (post_update sp c s) = PyBool True"
  "post_delete_impl sp = None \<Longrightarrow> fst (post_delete sp c s) = PyBool True"
  by (simp_all add: priv_read_def priv_create_def priv_update_def priv_delete_def
      post_create_def post_update_def post_delete_def Let_def)

lemma is_active_simps:
  "fst (is_active sp c s) = (fst (priv_read sp c s) \<noteq> PyNone)"
  "active_resource (self (snd (is_active sp c s))) = fst (priv_read sp c s)"
  "trace (snd (is_active sp c s)) = trace (snd (priv_read sp c s))"
  by (simp_all add: is_active_def Let_def split: prod.split)

lemma post_traces:
  "trace (snd (post_create sp c s)) = trace s @ [Call M_post_create]"
  "trace (snd (post_update sp c s)) = trace s @ [Call M_post_update]"
  "trace (snd (post_delete sp c s)) = trace s @ [Call M_post_delete]"
  by (simp_all add: post_create_def post_update_def post_delete_def Let_def split: option.split)

lemma output_file_traces:
  "trace (do_save_output_file sp s) = trace s @ [Call M_save_output_file]"
  "trace (do_delete_output_file sp s) = trace s @ [Call M_delete_output_file]"
  by (simp_all add: do_save_output_file_def do_delete_output_file_def Let_def split: prod.split)

lemma create_cond_simps:
  "fst (create_cond sp arg s) = (use_cache (self s) \<and> probe_result sp arg s \<noteq> PyNone)"
  "fst (snd (create_cond sp arg s)) = fst (client_or_own sp arg s)"
  by (simp_all add: create_cond_def probe_result_def is_active_simps case_prod_beta)

lemma create_cond_trace:
  "trace (snd (snd (create_cond sp arg s))) =
     (if use_cache (self s)
      then trace s @ Call M_read #
       (case read_impl sp of Some p \<Rightarrow> []
        | None \<Rightarrow> [Logger_error (''@_read method not defined for '' @
                     get_resource_name (self (snd (client_or_own sp arg s))))])
      else trace s)"
  by (simp add: create_cond_def is_active_simps priv_read_trace case_prod_beta)

lemma create_cond_active:
  "use_cache (self s) \<Longrightarrow>
     active_resource (self (snd (snd (create_cond sp arg s)))) = probe_result sp arg s"
  by (simp add: create_cond_def is_active_simps probe_result_def case_prod_beta)

lemmas op_simps = Let_def case_prod_beta probe_result_def is_active_simps calls_def
  post_traces output_file_traces priv_read_trace priv_create_trace priv_update_trace priv_delete_trace
  create_cond_simps create_cond_trace default_results

lemma create_calls_le: "calls M_create (snd (create sp arg s)) \<le> calls M_create s + 1"
  by (simp add: create_def op_simps split: option.split bool.split)

section \<open>create\<close>

text \<open>
  C1: for a resource with \<open>skip_create=False\<close> and \<open>use_cache=True\<close> whose probe finds
  the resource (the read primitive returns something other than \<open>None\<close>), \<open>create\<close>
  returns \<open>True\<close>, leaves \<open>resource_created = True\<close> and does not call \<open>_create\<close>.
  So when the state is the one an earlier \<open>create\<close> left, the two calls together have
  called \<open>_create\<close> at most once.
\<close>

theorem create_idempotent_when_active:
  assumes "\<not> skip_create (self s)" and "use_cache (self s)"
    and "probe_result sp arg s \<noteq> PyNone"
  shows "fst (create sp arg s) = PyBool True \<and>
     resource_created (self (snd (create sp arg s))) = PyBool True \<and>
     calls M_create (snd (create sp arg s)) = calls M_create s \<and>
     (\<forall>s0 arg0. s = snd (create sp arg0 s0) \<longrightarrow>
        calls M_create (snd (create sp arg s)) \<le> calls M_create s0 + 1)"
proof -
  have a: "fst (create sp arg s) = PyBool True"
    using assms by (simp add: create_def op_simps)
  have b: "resource_created (self (snd (create sp arg s))) = PyBool True"
    using assms by (simp add: create_def op_simps)
  have c: "calls M_create (snd (create sp arg s)) = calls M_create s"
    using assms by (simp add: create_def op_simps split: option.split)
  from a b c show ?thesis using create_calls_le by metis
qed

theorem create_idempotent_when_active_witness:
  "\<not> skip_create (self (snd (create example_specialization None (example_state [])))) \<and>
   use_cache (self (snd (create example_specialization None (example_state [])))) \<and>
   probe_result example_specialization None
     (snd (create example_specialization None (example_state []))) \<noteq> PyNone \<and>
   fst (create example_specialization None
     (snd (create example_specialization None (example_state [])))) = PyBool True \<and>
   calls M_create (snd (create example_specialization None
     (snd (create example_specialization None (example_state []))))) \<le>
     calls M_create (example_state []) + 1"
proof -
  define s where "s = snd (create example_specialization None (example_state []))"
  have h1: "\<not> skip_create (self s)"
    by (simp add: s_def engine_defs example_defs)
  have h2: "use_cache (self s)"
    by (simp add: s_def engine_defs example_defs)
  have h3: "probe_result example_specialization None s \<noteq> PyNone"
    by (simp add: s_def engine_defs example_defs)
  from create_idempotent_when_active[OF h1 h2 h3]
  have "fst (create example_specialization None s) = PyBool True"
    and "calls M_create (snd (create example_specialization None s)) \<le> calls M_create (example_state []) + 1"
    using s_def by blast+
  with h1 h2 h3 show ?thesis unfolding s_def by blast
qed

text \<open>
  C2: a specialization that does not supply \<open>_create\<close>, \<open>_update\<close> or \<open>_delete\<close> gets
  the default of the base class, which logs that the method is not defined and returns
  \<open>True\<close>; with the default post-action hook the lifecycle operation then returns
  \<open>True\<close>, whatever the state. The operation does not report a failure.
\<close>

theorem default_primitives_report_success:
  "(create_impl sp = None \<longrightarrow>
      fst (priv_create sp c s) = PyBool True \<and>
      Logger_error (''@_create method not defined for '' @ get_resource_name (self s))
        \<in> set (trace (snd (priv_create sp c s))) \<and>
      (post_create_impl sp = None \<longrightarrow> fst (create sp arg s) = PyBool True)) \<and>
   (update_impl sp = None \<longrightarrow>
      fst (priv_update sp c s) = PyBool True \<and>
      Logger_error (''@_update method not defined for '' @ get_resource_name (self s))
        \<in> set (trace (snd (priv_update sp c s))) \<and>
      (post_update_impl sp = None \<longrightarrow> fst (update sp arg s) = PyBool True)) \<and>
   (delete_impl sp = None \<longrightarrow>
      fst (priv_delete sp c s) = PyBool True \<and>
      Logger_error (''@_delete method not defined for '' @ get_resource_name (self s))
        \<in> set (trace (snd (priv_delete sp c s))) \<and>
      (post_delete_impl sp = None \<longrightarrow> fst (delete sp arg s) = PyBool True))"
proof -
  have a: "create_impl sp = None \<Longrightarrow> post_create_impl sp = None \<Longrightarrow> fst (create sp arg s) = PyBool True"
    by (simp add: create_def op_simps split: bool.split)
  have b: "update_impl sp = None \<Longrightarrow> post_update_impl sp = None \<Longrightarrow> fst (update sp arg s) = PyBool True"
    by (simp add: update_def op_simps split: bool.split)
  have c: "delete_impl sp = None \<Longrightarrow> post_delete_impl sp = None \<Longrightarrow> fst (delete sp arg s) = PyBool True"
    by (simp add: delete_def op_simps split: bool.split)
  have d: "create_impl sp = None \<Longrightarrow>
      Logger_error (''@_create method not defined for '' @ get_resource_name (self s))
        \<in> set (trace (snd (priv_create sp c s)))"
    by (simp add: priv_create_trace)
  have e: "update_impl sp = None \<Longrightarrow>
      Logger_error (''@_update method not defined for '' @ get_resource_name (self s))
        \<in> set (trace (snd (priv_update sp c s)))"
    by (simp add: priv_update_trace)
  have f: "delete_impl sp = None \<Longrightarrow>
      Logger_error (''@_delete method not defined for '' @ get_resource_name (self s))
        \<in> set (trace (snd (priv_delete sp c s)))"
    by (simp add: priv_delete_trace)
  from a b c d e f default_results(2,3,4)[of sp c s] show ?thesis by blast
qed

theorem default_primitives_report_success_witness:
  "create_impl read_only_specialization = None \<and> post_create_impl read_only_specialization = None \<and>
   update_impl read_only_specialization = None \<and> post_update_impl read_only_specialization = None \<and>
   delete_impl read_only_specialization = None \<and> post_delete_impl read_only_specialization = None \<and>
   fst (create read_only_specialization None (example_state [])) = PyBool True \<and>
   fst (update read_only_specialization None (example_state [7])) = PyBool True \<and>
   fst (delete read_only_specialization None (example_state [7])) = PyBool True"
proof -
  have h: "create_impl read_only_specialization = None" "post_create_impl read_only_specialization = None"
    "update_impl read_only_specialization = None" "post_update_impl read_only_specialization = None"
    "delete_impl read_only_specialization = None" "post_delete_impl read_only_specialization = None"
    by (simp_all add: example_defs)
  from default_primitives_report_success[of read_only_specialization 0 "example_state []" None] h
  have a: "fst (create read_only_specialization None (example_state [])) = PyBool True" by blast
  from default_primitives_report_success[of read_only_specialization 0 "example_state [7]" None] h
  have b: "fst (update read_only_specialization None (example_state [7])) = PyBool True"
    and c: "fst (delete read_only_specialization None (example_state [7])) = PyBool True" by blast+
  from h a b c show ?thesis by blast
qed

text \<open>
  The claim of C2 as the spec states it fails: on an empty cluster, a subclass without
  \<open>_create\<close> has its default called once, and \<open>create\<close> returns \<open>True\<close> with
  \<open>resource_created = True\<close>; on a cluster that holds the resource the same happens
  for \<open>update\<close> and \<open>delete\<close>.
\<close>

theorem missing_primitive_counterexample:
  "create_impl read_only_specialization = None \<and>
   \<not> skip_create (self (example_state [])) \<and>
   calls M_create (snd (create read_only_specialization None (example_state []))) = 1 \<and>
   fst (create read_only_specialization None (example_state [])) = PyBool True \<and>
   resource_created (self (snd (create read_only_specialization None (example_state [])))) = PyBool True \<and>
   update_impl read_only_specialization = None \<and>
   calls M_update (snd (update read_only_specialization None (example_state [7]))) = 1 \<and>
   fst (update read_only_specialization None (example_state [7])) = PyBool True \<and>
   delete_impl read_only_specialization = None \<and>
   calls M_delete (snd (delete read_only_specialization None (example_state [7]))) = 1 \<and>
   fst (delete read_only_specialization None (example_state [7])) = PyBool True"
  by (simp add: engine_defs example_defs)

text \<open>
  C3: with \<open>skip_create=False\<close>, \<open>create\<close> probes only when \<open>use_cache\<close> is true: then
  the first thing it does is call \<open>_read\<close>, and the state handed on holds the probe's
  result in \<open>active_resource\<close>, so no call of \<open>_create\<close> comes before the probe. With
  \<open>use_cache=False\<close> the right operand of \<open>and\<close> is not evaluated: \<open>_read\<close> is not called
  at all and the first thing \<open>create\<close> does is call \<open>_create\<close>.
\<close>

theorem create_probes_only_with_cache:
  assumes "\<not> skip_create (self s)"
  shows "(use_cache (self s) \<longrightarrow>
           (\<exists>rest. new_events s (snd (create sp arg s)) = Call M_read # rest) \<and>
           probe_precedes_create (new_events s (snd (create sp arg s))) \<and>
           active_resource (self (snd (snd (create_cond sp arg s)))) = probe_result sp arg s) \<and>
         (\<not> use_cache (self s) \<longrightarrow>
           (\<exists>rest. new_events s (snd (create sp arg s)) = Call M_create # rest) \<and>
           calls M_read (snd (create sp arg s)) = calls M_read s)"
proof -
  have a: "use_cache (self s) \<Longrightarrow> \<exists>rest. new_events s (snd (create sp arg s)) = Call M_read # rest"
    using assms by (simp add: create_def new_events_def op_simps split: option.split bool.split)
  have b: "\<not> use_cache (self s) \<Longrightarrow> \<exists>rest. new_events s (snd (create sp arg s)) = Call M_create # rest"
    using assms by (simp add: create_def new_events_def op_simps split: option.split)
  have c: "\<not> use_cache (self s) \<Longrightarrow> calls M_read (snd (create sp arg s)) = calls M_read s"
    using assms by (simp add: create_def op_simps split: option.split)
  have d: "use_cache (self s) \<Longrightarrow> probe_precedes_create (new_events s (snd (create sp arg s)))"
    using a by auto
  show ?thesis using a b c d create_cond_active by blast
qed

theorem create_probes_only_with_cache_witness:
  "\<not> skip_create (self (example_state [7])) \<and> use_cache (self (example_state [7])) \<and>
   probe_precedes_create
     (new_events (example_state [7]) (snd (create example_specialization None (example_state [7])))) \<and>
   \<not> skip_create (self (uncached_state [7])) \<and> \<not> use_cache (self (uncached_state [7])) \<and>
   calls M_read (snd (create example_specialization None (uncached_state [7]))) =
     calls M_read (uncached_state [7])"
proof -
  have h1: "\<not> skip_create (self (example_state [7]))" "use_cache (self (example_state [7]))"
    by (simp_all add: example_defs)
  have h2: "\<not> skip_create (self (uncached_state [7]))" "\<not> use_cache (self (uncached_state [7]))"
    by (simp_all add: example_defs)
  from create_probes_only_with_cache[OF h1(1), of example_specialization None] h1(2)
  have a: "probe_precedes_create
     (new_events (example_state [7]) (snd (create example_specialization None (example_state [7]))))"
    by blast
  from create_probes_only_with_cache[OF h2(1), of example_specialization None] h2(2)
  have b: "calls M_read (snd (create example_specialization None (uncached_state [7]))) =
     calls M_read (uncached_state [7])"
    by blast
  from h1 h2 a b show ?thesis by blast
qed

text \<open>
  The claim of C3 as the spec states it (for any value of \<open>use_cache\<close>) fails: with
  \<open>use_cache=False\<close> on a cluster that already holds the resource, \<open>create\<close> calls
  \<open>_create\<close> once and \<open>_read\<close> never.
\<close>

theorem create_without_probe_counterexample:
  "\<not> skip_create (self (uncached_state [7])) \<and>
   calls M_read (snd (create example_specialization None (uncached_state [7]))) = 0 \<and>
   calls M_create (snd (create example_specialization None (uncached_state [7]))) = 1 \<and>
   \<not> probe_precedes_create
       (new_events (uncached_state [7]) (snd (create example_specialization None (uncached_state [7]))))"
  by (simp add: engine_defs example_defs)

text \<open>
  C6: with \<open>skip_create=False\<close>, when step 2 does not find the resource (the condition
  of line 136 is false) and the call of \<open>_create\<close> that follows returns \<open>False\<close>,
  \<open>create\<close> returns \<open>False\<close>, \<open>resource_created\<close> is \<open>False\<close>, \<open>_create\<close> was called once
  and \<open>post_create\<close> was not called.
\<close>

theorem create_failure_reported:
  assumes "\<not> skip_create (self s)" and "create_cond sp arg s = (False, c, s2)"
    and "fst (priv_create sp c s2) = PyBool False"
  shows "fst (create sp arg s) = PyBool False \<and>
         resource_created (self (snd (create sp arg s))) = PyBool False \<and>
         calls M_post_create (snd (create sp arg s)) = calls M_post_create s \<and>
         calls M_create (snd (create sp arg s)) = calls M_create s + 1"
proof -
  have tr: "trace s2 = trace s @ (if use_cache (self s) then Call M_read #
       (case read_impl sp of Some p \<Rightarrow> []
        | None \<Rightarrow> [Logger_error (''@_read method not defined for '' @
                     get_resource_name (self (snd (client_or_own sp arg s))))]) else [])"
    using create_cond_trace[of sp arg s] assms(2) by simp
  have a: "fst (create sp arg s) = PyBool False"
    using assms by (simp add: create_def Let_def case_prod_beta)
  have b: "resource_created (self (snd (create sp arg s))) = PyBool False"
    using assms by (simp add: create_def Let_def case_prod_beta)
  have t: "trace (snd (create sp arg s)) = trace (snd (priv_create sp c s2)) @
       [Logger_error (''Failed to create '' @ type_and_name sp
          ((self (snd (priv_create sp c s2)))\<lparr>resource_created := PyBool False\<rparr>))]"
    using assms by (simp add: create_def Let_def case_prod_beta)
  have c: "calls M_post_create (snd (create sp arg s)) = calls M_post_create s"
    using t tr by (simp add: calls_def priv_create_trace split: option.split)
  have d: "calls M_create (snd (create sp arg s)) = calls M_create s + 1"
    using t tr by (simp add: calls_def priv_create_trace split: option.split)
  from a b c d show ?thesis by blast
qed

theorem create_failure_reported_witness:
  "\<not> skip_create (self (example_state [])) \<and>
   create_cond rejecting_specialization (Some 0) (example_state []) =
     (False, 0, \<lparr>self = example_resource, cluster = [], trace = [Call M_read]\<rparr>) \<and>
   fst (priv_create rejecting_specialization 0
          \<lparr>self = example_resource, cluster = [], trace = [Call M_read]\<rparr>) = PyBool False \<and>
   fst (create rejecting_specialization (Some 0) (example_state [])) = PyBool False \<and>
   resource_created (self (snd (create rejecting_specialization (Some 0) (example_state [])))) = PyBool False \<and>
   calls M_post_create (snd (create rejecting_specialization (Some 0) (example_state []))) =
     calls M_post_create (example_state []) \<and>
   calls M_create (snd (create rejecting_specialization (Some 0) (example_state []))) =
     calls M_create (example_state []) + 1"
proof -
  have h1: "\<not> skip_create (self (example_state []))"
    by (simp add: example_defs)
  have h2: "create_cond rejecting_specialization (Some 0) (example_state []) =
     (False, 0, \<lparr>self = example_resource, cluster = [], trace = [Call M_read]\<rparr>)"
    by (simp add: engine_defs example_defs)
  have h3: "fst (priv_create rejecting_specialization 0
          \<lparr>self = example_resource, cluster = [], trace = [Call M_read]\<rparr>) = PyBool False"
    by (simp add: engine_defs example_defs)
  from create_failure_reported[OF h1 h2 h3] h1 h2 h3 show ?thesis by blast
qed

section \<open>update and delete\<close>

text \<open>
  C4: with \<open>skip_update=False\<close> (for \<open>delete\<close>: \<open>skip_delete=False\<close>), when the probe
  returns \<open>None\<close>, \<open>update\<close> (\<open>delete\<close>) returns \<open>True\<close> and does not call \<open>_update\<close>
  (\<open>_delete\<close>).
\<close>

theorem absent_resource_is_noop:
  "(\<not> skip_update (self s) \<and> probe_result sp arg s = PyNone \<longrightarrow>
      fst (update sp arg s) = PyBool True \<and> calls M_update (snd (update sp arg s)) = calls M_update s) \<and>
   (\<not> skip_delete (self s) \<and> probe_result sp arg s = PyNone \<longrightarrow>
      fst (delete sp arg s) = PyBool True \<and> calls M_delete (snd (delete sp arg s)) = calls M_delete s)"
proof -
  have a: "\<not> skip_update (self s) \<and> probe_result sp arg s = PyNone \<longrightarrow>
      fst (update sp arg s) = PyBool True \<and> calls M_update (snd (update sp arg s)) = calls M_update s"
    by (simp add: update_def op_simps split: option.split)
  have b: "\<not> skip_delete (self s) \<and> probe_result sp arg s = PyNone \<longrightarrow>
      fst (delete sp arg s) = PyBool True \<and> calls M_delete (snd (delete sp arg s)) = calls M_delete s"
    by (simp add: delete_def op_simps split: option.split)
  from a b show ?thesis by blast
qed

theorem absent_resource_is_noop_witness:
  "\<not> skip_update (self (example_state [])) \<and> \<not> skip_delete (self (example_state [])) \<and>
   probe_result example_specialization None (example_state []) = PyNone \<and>
   fst (update example_specialization None (example_state [])) = PyBool True \<and>
   calls M_update (snd (update example_specialization None (example_state []))) =
     calls M_update (example_state []) \<and>
   fst (delete example_specialization None (example_state [])) = PyBool True \<and>
   calls M_delete (snd (delete example_specialization None (example_state []))) =
     calls M_delete (example_state [])"
proof -
  have h: "\<not> skip_update (self (example_state []))" "\<not> skip_delete (self (example_state []))"
    "probe_result example_specialization None (example_state []) = PyNone"
    by (simp_all add: engine_defs example_defs)
  from absent_resource_is_noop[of "example_state []" example_specialization None] h
  show ?thesis by blast
qed

text \<open>
  C5: when the skip flag of an operation is set, \<open>create\<close>, \<open>update\<close> or \<open>delete\<close>
  returns \<open>True\<close> and calls neither its primitive nor \<open>_read\<close>; the resource object and
  the remote system are as before, whatever the remote system holds.
\<close>

theorem skip_flags_short_circuit:
  "(skip_create (self s) \<longrightarrow>
      fst (create sp arg s) = PyBool True \<and> calls M_create (snd (create sp arg s)) = calls M_create s \<and>
      calls M_read (snd (create sp arg s)) = calls M_read s \<and>
      cluster (snd (create sp arg s)) = cluster s \<and> self (snd (create sp arg s)) = self s) \<and>
   (skip_update (self s) \<longrightarrow>
      fst (update sp arg s) = PyBool True \<and> calls M_update (snd (update sp arg s)) = calls M_update s \<and>
      calls M_read (snd (update sp arg s)) = calls M_read s \<and>
      cluster (snd (update sp arg s)) = cluster s \<and> self (snd (update sp arg s)) = self s) \<and>
   (skip_delete (self s) \<longrightarrow>
      fst (delete sp arg s) = PyBool True \<and> calls M_delete (snd (delete sp arg s)) = calls M_delete s \<and>
      calls M_read (snd (delete sp arg s)) = calls M_read s \<and>
      cluster (snd (delete sp arg s)) = cluster s \<and> self (snd (delete sp arg s)) = self s)"
  by (simp add: create_def update_def delete_def calls_def)

theorem skip_flags_short_circuit_witness:
  "skip_create (self (skipping_state [7])) \<and> skip_update (self (skipping_state [7])) \<and>
   skip_delete (self (skipping_state [7])) \<and>
   fst (create example_specialization None (skipping_state [7])) = PyBool True \<and>
   calls M_create (snd (create example_specialization None (skipping_state [7]))) =
     calls M_create (skipping_state [7]) \<and>
   fst (update example_specialization None (skipping_state [7])) = PyBool True \<and>
   calls M_update (snd (update example_specialization None (skipping_state [7]))) =
     calls M_update (skipping_state [7]) \<and>
   fst (delete example_specialization None (skipping_state [7])) = PyBool True \<and>
   calls M_delete (snd (delete example_specialization None (skipping_state [7]))) =
     calls M_delete (skipping_state [7])"
proof -
  have h: "skip_create (self (skipping_state [7]))" "skip_update (self (skipping_state [7]))"
    "skip_delete (self (skipping_state [7]))"
    by (simp_all add: example_defs)
  from skip_flags_short_circuit[of "skipping_state [7]" example_specialization None] h
  show ?thesis by blast
qed

section \<open>read\<close>

text \<open>
  C7: with \<open>use_cache=True\<close> and \<open>active_resource\<close> populated, \<open>read\<close> returns
  \<open>active_resource\<close> and changes nothing, so \<open>_read\<close> is not called. With
  \<open>use_cache=False\<close> and \<open>skip_read=False\<close>, \<open>read\<close> calls \<open>_read\<close> once and returns
  what it returned, whatever \<open>active_resource\<close> holds; a second \<open>read\<close> under the same
  flags calls it once more.
\<close>

theorem read_cache_and_bypass:
  "(use_cache (self s) \<and> active_resource (self s) \<noteq> PyNone \<longrightarrow>
      read sp arg s = (active_resource (self s), s) \<and>
      calls M_read (snd (read sp arg s)) = calls M_read s) \<and>
   (\<not> use_cache (self s) \<and> \<not> skip_read (self s) \<longrightarrow>
      fst (read sp arg s) = probe_result sp arg s \<and>
      calls M_read (snd (read sp arg s)) = calls M_read s + 1 \<and>
      (\<not> use_cache (self (snd (read sp arg s))) \<and> \<not> skip_read (self (snd (read sp arg s))) \<longrightarrow>
         calls M_read (snd (read sp arg' (snd (read sp arg s)))) = calls M_read s + 2))"
proof -
  have a: "use_cache (self s) \<and> active_resource (self s) \<noteq> PyNone \<longrightarrow>
      read sp arg s = (active_resource (self s), s) \<and>
      calls M_read (snd (read sp arg s)) = calls M_read s"
    by (simp add: read_def)
  have b: "\<not> use_cache (self t) \<and> \<not> skip_read (self t) \<longrightarrow>
      fst (read sp x t) = probe_result sp x t \<and>
      calls M_read (snd (read sp x t)) = calls M_read t + 1" for t x
    by (simp add: read_def op_simps split: option.split)
  from a b[of s arg] b[of "snd (read sp arg s)" arg'] show ?thesis by auto
qed

theorem read_cache_and_bypass_witness:
  "use_cache (self (cached_state [])) \<and> active_resource (self (cached_state [])) \<noteq> PyNone \<and>
   read example_specialization None (cached_state []) = (PyObj 7, cached_state []) \<and>
   \<not> use_cache (self (uncached_state [7])) \<and> \<not> skip_read (self (uncached_state [7])) \<and>
   fst (read example_specialization None (uncached_state [7])) = PyObj 7 \<and>
   \<not> use_cache (self (snd (read example_specialization None (uncached_state [7])))) \<and>
   \<not> skip_read (self (snd (read example_specialization None (uncached_state [7])))) \<and>
   calls M_read (snd (read example_specialization None
      (snd (read example_specialization None (uncached_state [7]))))) = 2"
proof -
  have h1: "use_cache (self (cached_state []))" "active_resource (self (cached_state [])) \<noteq> PyNone"
    "active_resource (self (cached_state [])) = PyObj 7"
    by (simp_all add: example_defs)
  have h2: "\<not> use_cache (self (uncached_state [7]))" "\<not> skip_read (self (uncached_state [7]))"
    "\<not> use_cache (self (snd (read example_specialization None (uncached_state [7]))))"
    "\<not> skip_read (self (snd (read example_specialization None (uncached_state [7]))))"
    by (simp_all add: engine_defs example_defs)
  have h3: "probe_result example_specialization None (uncached_state [7]) = PyObj 7"
    "calls M_read (uncached_state [7]) = 0"
    by (simp_all add: engine_defs example_defs)
  from read_cache_and_bypass[of "cached_state []" example_specialization None] h1
  have a: "read example_specialization None (cached_state []) = (PyObj 7, cached_state [])"
    by simp
  from read_cache_and_bypass[of "uncached_state [7]" example_specialization None None] h2 h3
  have b: "fst (read example_specialization None (uncached_state [7])) = PyObj 7"
    and c: "calls M_read (snd (read example_specialization None
      (snd (read example_specialization None (uncached_state [7]))))) = 2"
    by simp_all
  from h1 h2 a b c show ?thesis by blast
qed

section \<open>The default read primitive\<close>

text \<open>
  C10: when the specialization does not override \<open>_read\<close>, the default returns \<open>True\<close>,
  so \<open>is_active\<close> stores \<open>True\<close> in \<open>active_resource\<close> and returns true. Then \<open>create\<close>
  with \<open>use_cache=True\<close> reports "already exists" and returns \<open>True\<close> without calling
  \<open>_create\<close>, and \<open>update\<close> and \<open>delete\<close> each call their primitive.
\<close>

theorem default_read_reports_present:
  assumes "read_impl sp = None"
  shows "fst (priv_read sp c s) = PyBool True \<and>
         fst (is_active sp c s) \<and>
         active_resource (self (snd (is_active sp c s))) = PyBool True \<and>
         (\<not> skip_create (self s) \<and> use_cache (self s) \<longrightarrow>
            fst (create sp arg s) = PyBool True \<and>
            calls M_create (snd (create sp arg s)) = calls M_create s \<and>
            (\<exists>e. last (trace (snd (create sp arg s))) = Print_info (e @ '' already exists''))) \<and>
         (\<not> skip_update (self s) \<longrightarrow> calls M_update (snd (update sp arg s)) = calls M_update s + 1) \<and>
         (\<not> skip_delete (self s) \<longrightarrow> calls M_delete (snd (delete sp arg s)) = calls M_delete s + 1)"
proof -
  have a: "fst (priv_read sp c s) = PyBool True" "fst (is_active sp c s)"
    "active_resource (self (snd (is_active sp c s))) = PyBool True"
    using assms by (simp_all add: op_simps)
  have b: "\<not> skip_create (self s) \<and> use_cache (self s) \<longrightarrow>
            fst (create sp arg s) = PyBool True \<and>
            calls M_create (snd (create sp arg s)) = calls M_create s \<and>
            (\<exists>e. last (trace (snd (create sp arg s))) = Print_info (e @ '' already exists''))"
    using assms by (simp add: create_def op_simps)
  have c: "\<not> skip_update (self s) \<longrightarrow> calls M_update (snd (update sp arg s)) = calls M_update s + 1"
    using assms by (simp add: update_def op_simps split: option.split)
  have d: "\<not> skip_delete (self s) \<longrightarrow> calls M_delete (snd (delete sp arg s)) = calls M_delete s + 1"
    using assms by (simp add: delete_def op_simps split: option.split)
  from a b c d show ?thesis by blast
qed

theorem default_read_reports_present_witness:
  "read_impl base_specialization = None \<and>
   \<not> skip_create (self (example_state [])) \<and> use_cache (self (example_state [])) \<and>
   \<not> skip_update (self (example_state [])) \<and> \<not> skip_delete (self (example_state [])) \<and>
   fst (is_active base_specialization 0 (example_state [])) \<and>
   fst (create base_specialization None (example_state [])) = PyBool True \<and>
   calls M_create (snd (create base_specialization None (example_state []))) =
     calls M_create (example_state []) \<and>
   calls M_update (snd (update base_specialization None (example_state []))) =
     calls M_update (example_state []) + 1 \<and>
   calls M_delete (snd (delete base_specialization None (example_state []))) =
     calls M_delete (example_state []) + 1"
proof -
  have h0: "read_impl base_specialization = None"
    by (simp add: example_defs)
  have h: "\<not> skip_create (self (example_state []))" "use_cache (self (example_state []))"
    "\<not> skip_update (self (example_state []))" "\<not> skip_delete (self (example_state []))"
    by (simp_all add: example_defs)
  from default_read_reports_present[OF h0, of 0 "example_state []" None] h0 h
  show ?thesis by blast
qed

section \<open>The manifest projection\<close>

lemma set_update_cases:
  "(k', v') \<in> set (AList.update k v al) \<Longrightarrow> (k', v') = (k, v) \<or> (k', v') \<in> set al"
  by (induction al) (auto split: if_splits)

text \<open>Every dumped entry comes from a field that does not hold its default.\<close>

lemma dump_fold_origin:
  "(k, v) \<in> set (fold (\<lambda>f d. if holds_default f then d else AList.update (wire_name f) (field_value f) d) fs d0)
   \<Longrightarrow> (k, v) \<in> set d0 \<or> (\<exists>f\<in>set fs. wire_name f = k \<and> field_value f = v \<and> \<not> holds_default f)"
proof (induction fs arbitrary: d0)
  case Nil
  then show ?case by simp
next
  case (Cons f fs)
  show ?case
  proof (cases "holds_default f")
    case True
    with Cons.prems Cons.IH[of d0] show ?thesis by auto
  next
    case False
    with Cons.prems Cons.IH[of "AList.update (wire_name f) (field_value f) d0"]
    show ?thesis by (auto dest: set_update_cases)
  qed
qed

lemma model_dump_origin:
  "(k, v) \<in> set (model_dump fs) \<Longrightarrow> \<exists>f\<in>set fs. wire_name f = k \<and> field_value f = v \<and> \<not> holds_default f"
  using dump_fold_origin[of k v fs "[]"] by (simp add: model_dump_def)

lemma dump_fold_other:
  "k \<notin> wire_name ` set fs \<Longrightarrow>
     map_of (fold (\<lambda>f d. if holds_default f then d else AList.update (wire_name f) (field_value f) d) fs d0) k
       = map_of d0 k"
  by (induction fs arbitrary: d0) (auto simp add: update_conv')

text \<open>With one field per key, a field that does not hold its default is dumped.\<close>

lemma dump_fold_complete:
  "distinct (map wire_name fs) \<Longrightarrow> f \<in> set fs \<Longrightarrow> \<not> holds_default f \<Longrightarrow>
     map_of (fold (\<lambda>f d. if holds_default f then d else AList.update (wire_name f) (field_value f) d) fs d0)
       (wire_name f) = Some (field_value f)"
proof (induction fs arbitrary: d0)
  case Nil
  then show ?case by simp
next
  case (Cons g fs)
  show ?case
  proof (cases "f = g")
    case True
    with Cons.prems have "wire_name f \<notin> wire_name ` set fs" by auto
    from dump_fold_other[OF this] True Cons.prems(3) show ?thesis by (simp add: update_conv')
  next
    case False
    with Cons.prems have "f \<in> set fs" "distinct (map wire_name fs)" by auto
    from Cons.IH[OF this(2) this(1) Cons.prems(3)] show ?thesis by simp
  qed
qed

lemma model_dump_complete:
  "distinct (map wire_name fs) \<Longrightarrow> f \<in> set fs \<Longrightarrow> \<not> holds_default f \<Longrightarrow>
     map_of (model_dump fs) (wire_name f) = Some (field_value f)"
  by (simp add: model_dump_def dump_fold_complete)

text \<open>The copying loop, from any starting manifest \<open>m0\<close>.\<close>

lemma manifest_fold_entries:
  "(k, v) \<in> set (fold (\<lambda>a m. case map_of al a of Some v \<Rightarrow> AList.update a v m | None \<Rightarrow> m) xs m0)
   \<Longrightarrow> (k, v) \<in> set m0 \<or> (k \<in> set xs \<and> map_of al k = Some v)"
proof (induction xs arbitrary: m0)
  case Nil
  then show ?case by simp
next
  case (Cons a xs)
  show ?case
  proof (cases "map_of al a")
    case None
    with Cons.prems Cons.IH[of m0] show ?thesis by auto
  next
    case (Some w)
    with Cons.prems Cons.IH[of "AList.update a w m0"]
    show ?thesis by (auto dest: set_update_cases)
  qed
qed

lemma manifest_fold_map_of:
  "map_of (fold (\<lambda>a m. case map_of al a of Some v \<Rightarrow> AList.update a v m | None \<Rightarrow> m) xs m0) k =
     (if k \<in> set xs \<and> map_of al k \<noteq> None then map_of al k else map_of m0 k)"
proof (induction xs arbitrary: m0)
  case Nil
  then show ?case by simp
next
  case (Cons a xs)
  show ?case
  proof (cases "map_of al a")
    case None
    with Cons.IH[of m0] show ?thesis by auto
  next
    case (Some w)
    with Cons.IH[of "AList.update a w m0"] show ?thesis by (auto simp add: update_conv')
  qed
qed

text \<open>The loop appends new keys after the ones already there and repeats none.\<close>

lemma manifest_fold_keys:
  "\<exists>extra. map fst (fold (\<lambda>a m. case map_of al a of Some v \<Rightarrow> AList.update a v m | None \<Rightarrow> m) xs m0)
      = map fst m0 @ extra \<and> set extra \<subseteq> set xs \<and> set extra \<inter> set (map fst m0) = {}
        \<and> (distinct (map fst m0) \<longrightarrow> distinct (map fst m0 @ extra))"
proof (induction xs arbitrary: m0)
  case Nil
  then show ?case by simp
next
  case (Cons a xs)
  show ?case
  proof (cases "map_of al a")
    case None
    with Cons.IH[of m0] show ?thesis by auto
  next
    case (Some w)
    from Cons.IH[of "AList.update a w m0"] obtain extra where
      e: "map fst (fold (\<lambda>a m. case map_of al a of Some v \<Rightarrow> AList.update a v m | None \<Rightarrow> m) xs (AList.update a w m0))
            = map fst (AList.update a w m0) @ extra"
         "set extra \<subseteq> set xs" "set extra \<inter> set (map fst (AList.update a w m0)) = {}"
         "distinct (map fst (AList.update a w m0)) \<longrightarrow> distinct (map fst (AList.update a w m0) @ extra)"
      by blast
    show ?thesis
    proof (cases "a \<in> set (map fst m0)")
      case True
      then have "map fst (AList.update a w m0) = map fst m0" by (simp add: update_keys)
      with e Some show ?thesis by auto
    next
      case False
      then have k: "map fst (AList.update a w m0) = map fst m0 @ [a]" by (simp add: update_keys)
      have "map fst (fold (\<lambda>a m. case map_of al a of Some v \<Rightarrow> AList.update a v m | None \<Rightarrow> m) (a # xs) m0)
              = map fst m0 @ (a # extra)"
        using e(1) k Some by simp
      moreover have "set (a # extra) \<subseteq> set (a # xs)" using e(2) by auto
      moreover have "set (a # extra) \<inter> set (map fst m0) = {}" using e(3) k False by auto
      moreover have "distinct (map fst m0) \<longrightarrow> distinct (map fst m0 @ (a # extra))"
        using e(3,4) k False by auto
      ultimately show ?thesis by blast
    qed
  qed
qed

text \<open>The manifest is the dump restricted to the listed names.\<close>

lemma manifest_map_of:
  "map_of (get_k8s_manifest_dict r) k =
     (if k \<in> set (fields_for_k8s_manifest_base r @ fields_for_k8s_manifest r)
      then map_of (model_dump (model_fields r)) k else None)"
  unfolding get_k8s_manifest_dict_def Let_def manifest_fold_map_of by auto

lemma manifest_entries:
  assumes "(k, v) \<in> set (get_k8s_manifest_dict r)"
  shows "k \<in> set (fields_for_k8s_manifest_base r @ fields_for_k8s_manifest r)"
    and "\<exists>f\<in>set (model_fields r). wire_name f = k \<and> field_value f = v \<and> \<not> holds_default f"
proof -
  from assms
    manifest_fold_entries[of k v "model_dump (model_fields r)"
      "fields_for_k8s_manifest_base r @ fields_for_k8s_manifest r" "[]"]
  have a: "k \<in> set (fields_for_k8s_manifest_base r @ fields_for_k8s_manifest r)"
    and b: "map_of (model_dump (model_fields r)) k = Some v"
    by (auto simp add: get_k8s_manifest_dict_def Let_def simp del: fold_append)
  show "k \<in> set (fields_for_k8s_manifest_base r @ fields_for_k8s_manifest r)" by (rule a)
  from b have "(k, v) \<in> set (model_dump (model_fields r))" by (rule map_of_SomeD)
  then show "\<exists>f\<in>set (model_fields r). wire_name f = k \<and> field_value f = v \<and> \<not> holds_default f"
    by (rule model_dump_origin)
qed

text \<open>
  The keys of the manifest split into a run of names of the base list followed by a run
  of names that only the list of the subclass has.
\<close>

lemma manifest_keys_split:
  "\<exists>bs ss. map fst (get_k8s_manifest_dict r) = bs @ ss \<and>
     set bs \<subseteq> set (fields_for_k8s_manifest_base r) \<and>
     set ss \<subseteq> set (fields_for_k8s_manifest r) \<and>
     set ss \<inter> set (fields_for_k8s_manifest_base r) = {} \<and> distinct (bs @ ss)"
proof -
  let ?al = "model_dump (model_fields r)"
  let ?step = "\<lambda>a m. case map_of ?al a of Some v \<Rightarrow> AList.update a v m | None \<Rightarrow> m"
  let ?m1 = "fold ?step (fields_for_k8s_manifest_base r) []"
  from manifest_fold_keys[of ?al "fields_for_k8s_manifest_base r" "[]"]
  obtain bs where bs: "map fst ?m1 = bs" "set bs \<subseteq> set (fields_for_k8s_manifest_base r)" "distinct bs"
    by auto
  from manifest_fold_keys[of ?al "fields_for_k8s_manifest r" ?m1]
  obtain ss where ss: "map fst (fold ?step (fields_for_k8s_manifest r) ?m1) = map fst ?m1 @ ss"
    "set ss \<subseteq> set (fields_for_k8s_manifest r)" "set ss \<inter> set (map fst ?m1) = {}"
    "distinct (map fst ?m1) \<longrightarrow> distinct (map fst ?m1 @ ss)"
    by blast
  have keys: "map fst (get_k8s_manifest_dict r) = bs @ ss"
    using ss(1) bs(1) by (simp add: get_k8s_manifest_dict_def Let_def)
  have "set ss \<inter> set (fields_for_k8s_manifest_base r) = {}"
  proof (rule ccontr)
    assume "set ss \<inter> set (fields_for_k8s_manifest_base r) \<noteq> {}"
    then obtain y where y: "y \<in> set ss" "y \<in> set (fields_for_k8s_manifest_base r)" by blast
    from y(1) keys have "y \<in> fst ` set (get_k8s_manifest_dict r)"
      by (metis Un_iff set_append set_map)
    then have "map_of (get_k8s_manifest_dict r) y \<noteq> None"
      by (simp add: map_of_eq_None_iff)
    then have "map_of ?al y \<noteq> None"
      by (simp add: manifest_map_of split: if_splits)
    with y(2) have "map_of ?m1 y \<noteq> None"
      by (simp add: manifest_fold_map_of)
    then have "y \<in> set (map fst ?m1)"
      by (simp add: map_of_eq_None_iff)
    with ss(3) y(1) show False by blast
  qed
  moreover have "distinct (bs @ ss)" using ss(4) bs(1,3) by simp
  ultimately show ?thesis using keys bs(2) ss(2) by blast
qed

text \<open>
  C8: for a resource as the class declares it, the manifest has keys only among
  \<open>apiVersion\<close>, \<open>kind\<close>, \<open>metadata\<close> and the names of \<open>fields_for_k8s_manifest\<close>; every
  entry is the wire name and the value of a field that does not hold its default, and a
  field that holds its default has no entry; the field \<open>api_version\<close> appears under
  \<open>apiVersion\<close> and never under \<open>api_version\<close>; no key is repeated, and the keys of the
  base list come first, followed by the keys that only the list of the subclass names.
\<close>

theorem manifest_projection:
  assumes "k8s_declared r"
  shows "set (map fst (get_k8s_manifest_dict r)) \<subseteq>
           {''apiVersion'', ''kind'', ''metadata''} \<union> set (fields_for_k8s_manifest r) \<and>
         (\<forall>(k, v) \<in> set (get_k8s_manifest_dict r).
            \<exists>f\<in>set (model_fields r). wire_name f = k \<and> field_value f = v \<and> \<not> holds_default f) \<and>
         (\<forall>f\<in>set (model_fields r). holds_default f \<longrightarrow>
            wire_name f \<notin> set (map fst (get_k8s_manifest_dict r))) \<and>
         (\<forall>f\<in>set (model_fields r).
            field_name f = ''api_version'' \<and> field_alias f = Some ''apiVersion'' \<and> \<not> holds_default f \<longrightarrow>
            map_of (get_k8s_manifest_dict r) ''apiVersion'' = Some (field_value f) \<and>
            ''api_version'' \<notin> set (map fst (get_k8s_manifest_dict r))) \<and>
         (\<exists>bs ss. map fst (get_k8s_manifest_dict r) = bs @ ss \<and>
            set bs \<subseteq> {''apiVersion'', ''kind'', ''metadata''} \<and>
            set ss \<subseteq> set (fields_for_k8s_manifest r) \<and>
            set ss \<inter> {''apiVersion'', ''kind'', ''metadata''} = {} \<and>
            distinct (bs @ ss))"
proof -
  let ?m = "get_k8s_manifest_dict r"
  from assms have base: "fields_for_k8s_manifest_base r = [''api_version'', ''apiVersion'', ''kind'', ''metadata'']"
    and dist: "distinct (map wire_name (model_fields r))"
    and noint: "''api_version'' \<notin> set (map wire_name (model_fields r))"
    by (simp_all add: k8s_declared_def)
  have wire: "k \<in> set (map wire_name (model_fields r))" if "k \<in> set (map fst ?m)" for k
  proof -
    from that obtain v where "(k, v) \<in> set ?m" by auto
    from manifest_entries(2)[OF this] show ?thesis by auto
  qed
  have noapi: "''api_version'' \<notin> set (map fst ?m)" using wire noint by blast
  have a: "set (map fst ?m) \<subseteq> {''apiVersion'', ''kind'', ''metadata''} \<union> set (fields_for_k8s_manifest r)"
  proof
    fix k assume k: "k \<in> set (map fst ?m)"
    then obtain v where "(k, v) \<in> set ?m" by auto
    from manifest_entries(1)[OF this]
    have "k \<in> set (fields_for_k8s_manifest_base r) \<union> set (fields_for_k8s_manifest r)"
      by simp
    moreover from k noapi have "k \<noteq> ''api_version''" by blast
    ultimately show "k \<in> {''apiVersion'', ''kind'', ''metadata''} \<union> set (fields_for_k8s_manifest r)"
      using base by auto
  qed
  have b: "\<forall>(k, v) \<in> set ?m. \<exists>f\<in>set (model_fields r). wire_name f = k \<and> field_value f = v \<and> \<not> holds_default f"
    using manifest_entries(2) by blast
  have c: "\<forall>f\<in>set (model_fields r). holds_default f \<longrightarrow> wire_name f \<notin> set (map fst ?m)"
  proof (intro ballI impI notI)
    fix f assume f: "f \<in> set (model_fields r)" "holds_default f" "wire_name f \<in> set (map fst ?m)"
    then obtain v where "(wire_name f, v) \<in> set ?m" by auto
    from manifest_entries(2)[OF this] obtain g where
      g: "g \<in> set (model_fields r)" "wire_name g = wire_name f" "\<not> holds_default g" by blast
    from dist f(1) g(1,2) have "g = f" by (meson distinct_map inj_onD)
    with f(2) g(3) show False by simp
  qed
  have d: "\<forall>f\<in>set (model_fields r).
            field_name f = ''api_version'' \<and> field_alias f = Some ''apiVersion'' \<and> \<not> holds_default f \<longrightarrow>
            map_of ?m ''apiVersion'' = Some (field_value f) \<and> ''api_version'' \<notin> set (map fst ?m)"
  proof (intro ballI impI)
    fix f assume f: "f \<in> set (model_fields r)"
      "field_name f = ''api_version'' \<and> field_alias f = Some ''apiVersion'' \<and> \<not> holds_default f"
    then have w: "wire_name f = ''apiVersion''" by (simp add: wire_name_def)
    from model_dump_complete[OF dist f(1)] f(2) w
    have "map_of (model_dump (model_fields r)) ''apiVersion'' = Some (field_value f)" by simp
    then have "map_of ?m ''apiVersion'' = Some (field_value f)"
      by (simp add: manifest_map_of base)
    with noapi show "map_of ?m ''apiVersion'' = Some (field_value f) \<and> ''api_version'' \<notin> set (map fst ?m)"
      by simp
  qed
  have e: "\<exists>bs ss. map fst ?m = bs @ ss \<and> set bs \<subseteq> {''apiVersion'', ''kind'', ''metadata''} \<and>
            set ss \<subseteq> set (fields_for_k8s_manifest r) \<and>
            set ss \<inter> {''apiVersion'', ''kind'', ''metadata''} = {} \<and> distinct (bs @ ss)"
  proof -
    from manifest_keys_split[of r] obtain bs ss where
      s: "map fst ?m = bs @ ss" "set bs \<subseteq> set (fields_for_k8s_manifest_base r)"
         "set ss \<subseteq> set (fields_for_k8s_manifest r)"
         "set ss \<inter> set (fields_for_k8s_manifest_base r) = {}" "distinct (bs @ ss)"
      by blast
    from s(1) noapi have "''api_version'' \<notin> set bs" by simp
    with s(2) base have "set bs \<subseteq> {''apiVersion'', ''kind'', ''metadata''}" by auto
    moreover from s(4) base have "set ss \<inter> {''apiVersion'', ''kind'', ''metadata''} = {}" by auto
    ultimately show ?thesis using s by blast
  qed
  from a b c d e show ?thesis by blast
qed

text \<open>
  The example of the spec: \<open>replicas = 3\<close> is not the default and is listed, \<open>paused\<close>
  holds its default and is left out, \<open>pretty\<close> is not the default but is not listed.
\<close>

theorem manifest_projection_witness:
  "k8s_declared example_resource \<and>
   get_k8s_manifest_dict example_resource =
     [(''apiVersion'', JStr ''apps/v1''), (''kind'', JStr ''Deployment''),
      (''metadata'', JDict [(''name'', JStr ''web'')]), (''replicas'', JInt 3)] \<and>
   set (map fst (get_k8s_manifest_dict example_resource)) \<subseteq>
     {''apiVersion'', ''kind'', ''metadata''} \<union> set (fields_for_k8s_manifest example_resource) \<and>
   ''paused'' \<notin> set (map fst (get_k8s_manifest_dict example_resource))"
proof -
  have h: "k8s_declared example_resource"
    by code_simp
  have v: "get_k8s_manifest_dict example_resource =
     [(''apiVersion'', JStr ''apps/v1''), (''kind'', JStr ''Deployment''),
      (''metadata'', JDict [(''name'', JStr ''web'')]), (''replicas'', JInt 3)]"
    by code_simp
  have p: "''paused'' \<notin> set (map fst (get_k8s_manifest_dict example_resource))"
    by code_simp
  have s: "set (map fst (get_k8s_manifest_dict example_resource)) \<subseteq>
     {''apiVersion'', ''kind'', ''metadata''} \<union> set (fields_for_k8s_manifest example_resource)"
    by (rule manifest_projection[OF h, THEN conjunct1])
  show ?thesis by (intro conjI h v s p)
qed

end
